theory Spec2Isabelle
  imports Main "HOL-Library.AList"
begin

section \<open>Python values, exceptions and the standard-library functions the coercers call\<close>

text \<open>
  The validation engine of \<^verbatim>\<open>rainbows/model\<close> works on untyped Python values. A float is carried
  as its IEEE-754 bit pattern and a datetime as its fields; no coercer looks inside either, they are
  only produced by the standard library and handed on.
\<close>

datatype pyfloat = PyFloat int

datatype pydatetime = PyDatetime int int int int int int int "int option"

datatype pyval =
    VNone
  | VBool bool
  | VInt int
  | VFloat pyfloat
  | VStr string
  | VDatetime pydatetime
  | VList "pyval list"
  | VSet "pyval list"
  | VDict "(pyval \<times> pyval) list"
  | VObject string

text \<open>
  Exceptions are values. \<^verbatim>\<open>ValidationError(message, key_name)\<close> of \<^verbatim>\<open>exceptions.py\<close> keeps its
  \<^verbatim>\<open>key_name\<close>; the message text is not modelled. The other constructors are the built-in exception
  classes that the modelled code can raise.
\<close>

datatype pyerr =
    ValidationError string
  | TypeError
  | ValueError
  | RuntimeError
  | AttributeError
  | OverflowError
  | OSError
  | OtherError string

text \<open>
  \<^verbatim>\<open>float(x)\<close>, \<^verbatim>\<open>str(x)\<close> of a float, \<^verbatim>\<open>datetime.fromtimestamp\<close> and \<^verbatim>\<open>datetime.fromisoformat\<close>
  belong to the Python standard library, not to the repository: they are parameters of the model.
  \<^verbatim>\<open>float(x)\<close> and \<^verbatim>\<open>fromisoformat(x)\<close> raise \<^verbatim>\<open>ValueError\<close> on a string they cannot parse, which
  is \<open>None\<close> here; \<^verbatim>\<open>fromtimestamp\<close> can raise \<^verbatim>\<open>OverflowError\<close>, \<^verbatim>\<open>OSError\<close> or \<^verbatim>\<open>ValueError\<close>.
\<close>

record pylib =
  float_of_str :: "string \<Rightarrow> pyfloat option"
  str_of_float :: "pyfloat \<Rightarrow> string"
  fromtimestamp_int :: "int \<Rightarrow> pyerr + pydatetime"
  fromtimestamp_float :: "pyfloat \<Rightarrow> pyerr + pydatetime"
  fromisoformat :: "string \<Rightarrow> pydatetime option"

text \<open>
  A library instance for the evaluations below, whose inputs hold no float, no timestamp and
  no ISO date: each of its functions rejects its argument, as Python's do on those inputs
  (\<^verbatim>\<open>fromisoformat("tomorrow")\<close> raises \<^verbatim>\<open>ValueError\<close>).
\<close>

definition rejecting_lib :: pylib where
  "rejecting_lib =
     \<lparr> float_of_str = (\<lambda>s. None),
       str_of_float = (\<lambda>f. ''nan''),
       fromtimestamp_int = (\<lambda>n. Inl OverflowError),
       fromtimestamp_float = (\<lambda>f. Inl OverflowError),
       fromisoformat = (\<lambda>s. None) \<rparr>"

subsection \<open>String helpers: \<^verbatim>\<open>str.lower\<close>, \<^verbatim>\<open>str.startswith\<close>, \<^verbatim>\<open>int(str)\<close>, \<^verbatim>\<open>str(int)\<close>\<close>

text \<open>Strings are ASCII here; \<^verbatim>\<open>str.lower\<close> maps the 26 capital letters and nothing else.\<close>

definition lower_char :: "char \<Rightarrow> char" where
  "lower_char c =
     (case map_of (zip ''ABCDEFGHIJKLMNOPQRSTUVWXYZ'' ''abcdefghijklmnopqrstuvwxyz'') c of
        Some l \<Rightarrow> l
      | None \<Rightarrow> c)"

definition lower :: "string \<Rightarrow> string" where
  "lower s = map lower_char s"

fun startswith_underscore :: "string \<Rightarrow> bool" where
  "startswith_underscore [] = False"
| "startswith_underscore (c # cs) = (c = CHR ''_'')"

text \<open>
  \<^verbatim>\<open>int(x)\<close> for a string, base 10: surrounding whitespace is stripped, one sign is allowed, and
  single underscores may separate digits. \<open>None\<close> is Python's \<^verbatim>\<open>ValueError\<close>.
  The limit that Python 3.11 puts on the number of digits is not modelled.
  Strings are ASCII: the non-ASCII whitespace and digits that \<^verbatim>\<open>int\<close> also accepts are outside
  the model.
\<close>

definition is_space :: "char \<Rightarrow> bool" where
  "is_space c = (c \<in> set [CHR 0x09, CHR 0x0A, CHR 0x0B, CHR 0x0C, CHR 0x0D, CHR '' ''])"

definition strip :: "string \<Rightarrow> string" where
  "strip s = rev (dropWhile is_space (rev (dropWhile is_space s)))"

definition digit_val :: "char \<Rightarrow> nat option" where
  "digit_val c = map_of (zip ''0123456789'' [0, 1, 2, 3, 4, 5, 6, 7, 8, 9]) c"

fun parse_digits :: "nat \<Rightarrow> string \<Rightarrow> nat option" where
  "parse_digits acc [] = Some acc"
| "parse_digits acc [c] =
     (case digit_val c of None \<Rightarrow> None | Some v \<Rightarrow> Some (acc * 10 + v))"
| "parse_digits acc (c # d # cs) =
     (if c = CHR ''_'' then
        (case digit_val d of None \<Rightarrow> None | Some v \<Rightarrow> parse_digits (acc * 10 + v) cs)
      else
        (case digit_val c of None \<Rightarrow> None | Some v \<Rightarrow> parse_digits (acc * 10 + v) (d # cs)))"

definition parse_unsigned :: "string \<Rightarrow> nat option" where
  "parse_unsigned s =
     (case s of
        [] \<Rightarrow> None
      | c # cs \<Rightarrow> (case digit_val c of None \<Rightarrow> None | Some v \<Rightarrow> parse_digits v cs))"

definition py_int :: "string \<Rightarrow> int option" where
  "py_int x =
     (case strip x of
        [] \<Rightarrow> None
      | c # cs \<Rightarrow>
          if c = CHR ''-'' then map_option (\<lambda>n. - int n) (parse_unsigned cs)
          else if c = CHR ''+'' then map_option int (parse_unsigned cs)
          else map_option int (parse_unsigned (c # cs)))"

text \<open>\<^verbatim>\<open>str(x)\<close> for an int: its decimal digits, with a minus sign when negative.\<close>

definition digit_char :: "nat \<Rightarrow> char" where
  "digit_char d = ''0123456789'' ! (d mod 10)"

fun decimal :: "nat \<Rightarrow> string" where
  "decimal n = (if n < 10 then [digit_char n] else decimal (n div 10) @ [digit_char (n mod 10)])"

declare decimal.simps [simp del]

definition py_str_int :: "int \<Rightarrow> string" where
  "py_str_int i = (if i < 0 then CHR ''-'' # decimal (nat (- i)) else decimal (nat i))"

section \<open>The Coercer Registry (\<^verbatim>\<open>builtin_validators.py\<close>)\<close>

text \<open>
  Each coercer takes the key and the value, as in the source. The leading underscore of the
  source's names is dropped. \<^verbatim>\<open>isinstance(x, int)\<close> holds for a bool too, since \<^verbatim>\<open>bool\<close> is a
  subclass of \<^verbatim>\<open>int\<close>.
\<close>

definition validate_bool :: "string \<Rightarrow> pyval \<Rightarrow> pyerr + pyval" where
  "validate_bool key x =
     (case x of
        VBool b \<Rightarrow> Inr x
      | VStr s \<Rightarrow>
          (let l = lower key in
           if l \<in> set [''yes'', ''true'', ''y'', ''t''] then Inr (VBool True)
           else if l \<in> set [''no'', ''false'', ''n'', ''f''] then Inr (VBool False)
           else Inl (ValidationError key))
      | _ \<Rightarrow> Inl (ValidationError key))"

definition validate_str :: "pylib \<Rightarrow> string \<Rightarrow> pyval \<Rightarrow> pyerr + pyval" where
  "validate_str lib key x =
     (case x of
        VStr s \<Rightarrow> Inr x
      | VBool b \<Rightarrow> Inr (VStr (if b then ''true'' else ''false''))
      | VInt i \<Rightarrow> Inr (VStr (py_str_int i))
      | VFloat f \<Rightarrow> Inr (VStr (str_of_float lib f))
      | _ \<Rightarrow> Inl (ValidationError key))"

definition validate_int :: "string \<Rightarrow> pyval \<Rightarrow> pyerr + pyval" where
  "validate_int key x =
     (case x of
        VInt i \<Rightarrow> Inr x
      | VBool b \<Rightarrow> Inr x
      | VStr s \<Rightarrow>
          (case py_int s of
             Some i \<Rightarrow> Inr (VInt i)
           | None \<Rightarrow> Inl (ValidationError key))
      | _ \<Rightarrow> Inl (ValidationError key))"

definition validate_float :: "pylib \<Rightarrow> string \<Rightarrow> pyval \<Rightarrow> pyerr + pyval" where
  "validate_float lib key x =
     (case x of
        VFloat f \<Rightarrow> Inr x
      | VStr s \<Rightarrow>
          (case float_of_str lib s of
             Some f \<Rightarrow> Inr (VFloat f)
           | None \<Rightarrow> Inl (ValidationError key))
      | _ \<Rightarrow> Inl (ValidationError key))"

text \<open>
  The datetime coercer. For an int or a float every exception of \<^verbatim>\<open>fromtimestamp\<close> is swallowed
  by the bare \<^verbatim>\<open>except\<close> and the function falls through to its final \<^verbatim>\<open>raise\<close>. For a string,
  \<^verbatim>\<open>fromtimestamp(int(x))\<close> is tried under \<^verbatim>\<open>except ValueError\<close> only, and the handler returns
  \<^verbatim>\<open>fromisoformat(x)\<close> outside any \<^verbatim>\<open>try\<close>.
\<close>

definition epoch_of_str :: "pylib \<Rightarrow> string \<Rightarrow> pyerr + pydatetime" where
  "epoch_of_str lib s =
     (case py_int s of
        None \<Rightarrow> Inl ValueError
      | Some i \<Rightarrow> fromtimestamp_int lib i)"

definition validate_datetime :: "pylib \<Rightarrow> string \<Rightarrow> pyval \<Rightarrow> pyerr + pyval" where
  "validate_datetime lib key x =
     (case x of
        VDatetime d \<Rightarrow> Inr x
      | VInt i \<Rightarrow>
          (case fromtimestamp_int lib i of
             Inr d \<Rightarrow> Inr (VDatetime d)
           | Inl e \<Rightarrow> Inl (ValidationError key))
      | VBool b \<Rightarrow>
          (case fromtimestamp_int lib (if b then 1 else 0) of
             Inr d \<Rightarrow> Inr (VDatetime d)
           | Inl e \<Rightarrow> Inl (ValidationError key))
      | VFloat f \<Rightarrow>
          (case fromtimestamp_float lib f of
             Inr d \<Rightarrow> Inr (VDatetime d)
           | Inl e \<Rightarrow> Inl (ValidationError key))
      | VStr s \<Rightarrow>
          (case epoch_of_str lib s of
             Inr d \<Rightarrow> Inr (VDatetime d)
           | Inl ValueError \<Rightarrow>
               (case fromisoformat lib s of
                  Some d \<Rightarrow> Inr (VDatetime d)
                | None \<Rightarrow> Inl ValueError)
           | Inl e \<Rightarrow> Inl e)
      | _ \<Rightarrow> Inl (ValidationError key))"

section \<open>Type expressions and the Type Expression Validator (\<^verbatim>\<open>_validate_attr\<close>)\<close>

text \<open>
  A custom validation function takes the value, or the value and the key; \<^verbatim>\<open>two_params\<close> of the
  source wraps the one-argument form so that it ignores the key. \<^verbatim>\<open>asyncify\<close> only makes a
  synchronous function awaitable and leaves its result alone, so it does not appear. Functions are
  pure here: they return a value or raise.
\<close>

datatype handler =
    Handler1 "pyval \<Rightarrow> pyerr + pyval"
  | Handler2 "pyval \<Rightarrow> string \<Rightarrow> pyerr + pyval"

definition two_params :: "handler \<Rightarrow> pyval \<Rightarrow> string \<Rightarrow> pyerr + pyval" where
  "two_params h = (case h of Handler1 f \<Rightarrow> (\<lambda>a _. f a) | Handler2 g \<Rightarrow> g)"

text \<open>
  The objects that can stand where \<^verbatim>\<open>_validate_attr\<close> expects a type: the five classes of the
  registry, \<^verbatim>\<open>type(None)\<close>, \<^verbatim>\<open>typing.Any\<close>, a plain value that is no type at all (\<open>TValue\<close>: the
  object \<^verbatim>\<open>None\<close> written as an annotation, or the default value that \<^verbatim>\<open>validate\<close> passes at
  line 376), any other class (with its \<^verbatim>\<open>__validate__\<close> attribute when it has one),
  \<^verbatim>\<open>typing.Union[...]\<close> (which \<^verbatim>\<open>typing.Optional\<close> abbreviates) and any other subscripted
  generic such as \<^verbatim>\<open>typing.List[int]\<close>, kept with the name of the runtime class it aliases.
  The \<^verbatim>\<open>typing\<close> module stores \<^verbatim>\<open>type(None)\<close> for a \<^verbatim>\<open>None\<close> written inside a Union, so
  \<open>Optional[int]\<close> is \<open>TUnion [TInt, TNoneType]\<close>. A plain value has no \<^verbatim>\<open>__validate__\<close>
  attribute.
\<close>

datatype pytype =
    TBool
  | TStr
  | TInt
  | TFloat
  | TDatetime
  | TNoneType
  | TAny
  | TValue pyval
  | TClass string "handler option"
  | TUnion "pytype list"
  | TGeneric string "pytype list"

abbreviation TNone :: pytype where
  "TNone \<equiv> TValue VNone"

text \<open>
  \<^verbatim>\<open>typing.get_origin\<close> returns \<^verbatim>\<open>typing.Union\<close> for a Union, the aliased runtime class for any
  other subscripted generic (\<^verbatim>\<open>get_origin(typing.List[int]) is list\<close>), and \<^verbatim>\<open>None\<close> for
  everything else, \<^verbatim>\<open>typing.Any\<close> included. The source compares the origin by identity with
  \<^verbatim>\<open>typing.Any\<close>, \<^verbatim>\<open>typing.Union\<close>, \<^verbatim>\<open>typing.Dict\<close>, \<^verbatim>\<open>typing.List\<close> and \<^verbatim>\<open>typing.Set\<close>;
  the last three are alias objects, distinct from the classes \<^verbatim>\<open>dict\<close>, \<^verbatim>\<open>list\<close> and \<^verbatim>\<open>set\<close>.
\<close>

datatype origin =
    Typing_Any
  | Typing_Union
  | Typing_Dict
  | Typing_List
  | Typing_Set
  | Runtime_class string

fun get_origin :: "pytype \<Rightarrow> origin option" where
  "get_origin (TUnion ts) = Some Typing_Union"
| "get_origin (TGeneric c ts) = Some (Runtime_class c)"
| "get_origin _ = None"

fun get_args :: "pytype \<Rightarrow> pytype list" where
  "get_args (TUnion ts) = ts"
| "get_args (TGeneric c ts) = ts"
| "get_args _ = []"

fun BUILT_IN_VALIDATORS :: "pylib \<Rightarrow> pytype \<Rightarrow> (string \<Rightarrow> pyval \<Rightarrow> pyerr + pyval) option" where
  "BUILT_IN_VALIDATORS lib TBool = Some validate_bool"
| "BUILT_IN_VALIDATORS lib TStr = Some (validate_str lib)"
| "BUILT_IN_VALIDATORS lib TInt = Some validate_int"
| "BUILT_IN_VALIDATORS lib TFloat = Some (validate_float lib)"
| "BUILT_IN_VALIDATORS lib TDatetime = Some (validate_datetime lib)"
| "BUILT_IN_VALIDATORS lib _ = None"

text \<open>\<^verbatim>\<open>getattr(type_, "__validate__", None)\<close>.\<close>

fun validate_hook :: "pytype \<Rightarrow> handler option" where
  "validate_hook (TClass name h) = h"
| "validate_hook _ = None"

text \<open>Lines 40 to 65: the registry first, then the type's own hook, else no validator.\<close>

definition find_validator :: "pylib \<Rightarrow> pytype \<Rightarrow> (pyval \<Rightarrow> string \<Rightarrow> pyerr + pyval) option" where
  "find_validator lib ty =
     (case BUILT_IN_VALIDATORS lib ty of
        Some builtin_validator \<Rightarrow> Some (\<lambda>value key. builtin_validator key value)
      | None \<Rightarrow>
          (case validate_hook ty of
             None \<Rightarrow> None
           | Some validator_attr \<Rightarrow> Some (two_params validator_attr)))"

text \<open>\<^verbatim>\<open>except (TypeError, ValidationError)\<close> in the union loop.\<close>

fun caught_in_union :: "pyerr \<Rightarrow> bool" where
  "caught_in_union TypeError = True"
| "caught_in_union (ValidationError k) = True"
| "caught_in_union _ = False"

text \<open>
  \<^verbatim>\<open>_validate_attr\<close>; its parameter \<^verbatim>\<open>type_\<close> is \<open>ty\<close> here. \<open>union_loop\<close> is the
  \<^verbatim>\<open>for type_ in types\<close> loop of lines 85 to 93, with \<^verbatim>\<open>last_throw\<close> as an option (\<open>None\<close> is
  the source's \<^verbatim>\<open>_undefined\<close>).

  The tests of lines 96, 113 and 126 compare the origin with \<^verbatim>\<open>typing.Dict\<close>, \<^verbatim>\<open>typing.List\<close> and
  \<^verbatim>\<open>typing.Set\<close>. \<open>get_origin\<close> never returns one of these (lemma \<open>get_origin_runtime\<close>), so
  for every type expression the three tests are false and control reaches the final \<^verbatim>\<open>raise
  TypeError\<close> of line 135; the bodies of those three branches are never entered and are not embedded.
\<close>

function validate_attr :: "pylib \<Rightarrow> pytype \<Rightarrow> pyval \<Rightarrow> string \<Rightarrow> pyerr + pyval"
  and union_loop :: "pylib \<Rightarrow> pytype list \<Rightarrow> pyval \<Rightarrow> string \<Rightarrow> pyerr option \<Rightarrow> pyerr + pyval"
where
  "validate_attr lib ty item key =
     (case get_origin ty of
        None \<Rightarrow>
          (case find_validator lib ty of
             Some validator \<Rightarrow> validator item key
           | None \<Rightarrow> Inl TypeError)
      | Some typing_origin \<Rightarrow>
          if typing_origin = Typing_Any then Inr item
          else if typing_origin = Typing_Union then
            (if item = VNone \<and> TNone \<in> set (get_args ty) then Inr VNone
             else union_loop lib (get_args ty) item key None)
          else Inl TypeError)"
| "union_loop lib [] item key last_throw =
     (case last_throw of Some e \<Rightarrow> Inl e | None \<Rightarrow> Inl TypeError)"
| "union_loop lib (ty # types) item key last_throw =
     (if ty \<noteq> TNone then
        (case validate_attr lib ty item key of
           Inr v \<Rightarrow> Inr v
         | Inl e \<Rightarrow>
             if caught_in_union e then union_loop lib types item key (Some e)
             else Inl e)
      else union_loop lib types item key last_throw)"
  by pat_completeness auto
termination
proof (relation "measure (\<lambda>x. case x of
          Inl (lib, t, item, key) \<Rightarrow> 2 * size t + 1
        | Inr (lib, ts, item, key, lt) \<Rightarrow> 2 * size_list size ts + 2)", goal_cases)
  case 1
  show ?case by simp
next
  case (2 lib ty item key typing_origin)
  then have "size_list size (get_args ty) < size ty"
    by (cases ty) simp_all
  then show ?case by simp
next
  case 3
  show ?case by simp
next
  case 4
  show ?case by simp
next
  case 5
  show ?case by simp
qed

declare validate_attr.simps [simp del]

section \<open>The model object (\<^verbatim>\<open>model.py\<close>)\<close>

text \<open>
  A Python dict is an association list in insertion order with distinct keys: \<open>AList.update\<close>
  overwrites in place or appends, \<open>AList.delete\<close> removes, \<open>map_of\<close> looks up.

  The instance state is what \<^verbatim>\<open>Model\<close> keeps in its private attributes \<^verbatim>\<open>_defaults\<close>,
  \<^verbatim>\<open>_items\<close>, \<^verbatim>\<open>_attributes\<close>, \<^verbatim>\<open>_validators\<close> and \<^verbatim>\<open>_ignored_attrs\<close> (the last two do not exist
  until first used, which is \<open>None\<close>), and \<open>plain_attrs\<close>, the other entries of the instance's
  own \<^verbatim>\<open>__dict__\<close>, written by \<^verbatim>\<open>object.__setattr__\<close>.
\<close>

record model =
  defaults :: "(string \<times> pyval) list"
  items :: "(string \<times> pyval) list"
  attributes :: "(string \<times> pytype) list"
  validators :: "(string option \<times> (pyval \<Rightarrow> string \<Rightarrow> pyerr + pyval) list) list option"
  ignored_attrs :: "string list option"
  plain_attrs :: "(string \<times> pyval) list"

text \<open>
  What a concrete model class declares: its \<^verbatim>\<open>__annotations__\<close> (if any) and its class-level
  attributes in the order of \<^verbatim>\<open>dir(self)\<close>. A class-level attribute is a literal value, an object
  carrying \<^verbatim>\<open>_rainbows_default\<close> (a function of the instance), or a method decorated with
  \<^verbatim>\<open>validates(key_name)\<close>, which carries \<^verbatim>\<open>_validates_keys\<close>.
\<close>

datatype keyspec = AllKeys | OneKey string | ManyKeys "string list"

datatype class_attr =
    Literal pyval
  | Deferred "model \<Rightarrow> pyval"
  | Validates keyspec handler

record pyclass =
  annotations :: "(string \<times> pytype) list option"
  class_attrs :: "(string \<times> class_attr) list"

subsection \<open>\<^verbatim>\<open>add_validator\<close>\<close>

text \<open>
  Lines 292 to 326. The registry is a dict from a key, or \<^verbatim>\<open>None\<close> for the wildcard, to the list
  of handlers in registration order; \<open>append_handler\<close> is the body of the loop over \<^verbatim>\<open>keys\<close>.
\<close>

definition append_handler ::
  "(pyval \<Rightarrow> string \<Rightarrow> pyerr + pyval) \<Rightarrow> string option \<Rightarrow>
   (string option \<times> (pyval \<Rightarrow> string \<Rightarrow> pyerr + pyval) list) list \<Rightarrow>
   (string option \<times> (pyval \<Rightarrow> string \<Rightarrow> pyerr + pyval) list) list" where
  "append_handler h k vs =
     (case map_of vs k of
        Some hs \<Rightarrow> AList.update k (hs @ [h]) vs
      | None \<Rightarrow> AList.update k [h] vs)"

definition add_validator :: "model \<Rightarrow> keyspec \<Rightarrow> handler \<Rightarrow> model" where
  "add_validator m key_name handler =
     (let vs = (case validators m of None \<Rightarrow> [] | Some v \<Rightarrow> v);
          h = two_params handler;
          keys = (case key_name of
                    AllKeys \<Rightarrow> [None]
                  | OneKey k \<Rightarrow> [Some k]
                  | ManyKeys ks \<Rightarrow> map Some ks)
      in m\<lparr>validators := Some (fold (append_handler h) keys vs)\<rparr>)"

subsection \<open>\<^verbatim>\<open>__init__\<close>\<close>

text \<open>
  Lines 170 to 172 delete from \<^verbatim>\<open>kwargs\<close> while iterating over it. The iterator of a Python dict
  remembers the dict's size when the loop starts; each later step of the iterator, the one
  that ends the loop included, first compares that size with the current one and raises
  \<^verbatim>\<open>RuntimeError\<close> when they differ. \<open>used\<close> is the remembered size and the string list the keys
  not yet visited.
\<close>

fun drop_private :: "nat \<Rightarrow> string list \<Rightarrow> (string \<times> pyval) list \<Rightarrow> pyerr + (string \<times> pyval) list" where
  "drop_private used [] kwargs =
     (if length kwargs \<noteq> used then Inl RuntimeError else Inr kwargs)"
| "drop_private used (key # keys) kwargs =
     (if length kwargs \<noteq> used then Inl RuntimeError
      else if startswith_underscore key then drop_private used keys (AList.delete key kwargs)
      else drop_private used keys kwargs)"

text \<open>Lines 175 to 180: every attribute of \<^verbatim>\<open>dir(self)\<close> that carries \<^verbatim>\<open>_validates_keys\<close>.\<close>

fun register_decorated :: "(string \<times> class_attr) list \<Rightarrow> model \<Rightarrow> model" where
  "register_decorated [] m = m"
| "register_decorated ((attr_name, attr) # rest) m =
     (case attr of
        Validates validates_keys h \<Rightarrow> register_decorated rest (add_validator m validates_keys h)
      | _ \<Rightarrow> register_decorated rest m)"

text \<open>
  \<^verbatim>\<open>object.__getattribute__(self, name)\<close> finds an entry of the instance's own \<^verbatim>\<open>__dict__\<close> or a
  class-level attribute; \<^verbatim>\<open>object.__delattr__(self, name)\<close> removes an entry of the instance's own
  \<^verbatim>\<open>__dict__\<close> and raises \<^verbatim>\<open>AttributeError\<close> (\<open>None\<close>) when the instance has none of that name,
  also when the class has one.
\<close>

definition object_getattribute :: "pyclass \<Rightarrow> model \<Rightarrow> string \<Rightarrow> class_attr option" where
  "object_getattribute cls m name =
     (case map_of (plain_attrs m) name of
        Some v \<Rightarrow> Some (Literal v)
      | None \<Rightarrow> map_of (class_attrs cls) name)"

definition object_delattr :: "model \<Rightarrow> string \<Rightarrow> model option" where
  "object_delattr m name =
     (case map_of (plain_attrs m) name of
        Some v \<Rightarrow> Some (m\<lparr>plain_attrs := AList.delete name (plain_attrs m)\<rparr>)
      | None \<Rightarrow> None)"

text \<open>Lines 197 to 199: the default that is stored for a found item.\<close>

definition default_of :: "class_attr \<Rightarrow> model \<Rightarrow> pyval" where
  "default_of item m =
     (case item of
        Literal v \<Rightarrow> v
      | Deferred rainbows_default \<Rightarrow> rainbows_default m
      | Validates k h \<Rightarrow> VObject ''function'')"

text \<open>
  Lines 183 to 200, the loop over \<^verbatim>\<open>self._attributes\<close>, again a dict iterator with its size check.
  In the \<^verbatim>\<open>try\<close> block \<^verbatim>\<open>found = True\<close> comes after \<^verbatim>\<open>object.__delattr__\<close>, so an
  \<^verbatim>\<open>AttributeError\<close> from either call leaves \<^verbatim>\<open>found\<close> false.
\<close>

fun init_attributes :: "pyclass \<Rightarrow> nat \<Rightarrow> string list \<Rightarrow> model \<Rightarrow> pyerr + model" where
  "init_attributes cls used [] m =
     (if length (attributes m) \<noteq> used then Inl RuntimeError else Inr m)"
| "init_attributes cls used (attr_name # names) m =
     (if length (attributes m) \<noteq> used then Inl RuntimeError
      else if startswith_underscore attr_name then
        init_attributes cls used names (m\<lparr>attributes := AList.delete attr_name (attributes m)\<rparr>)
      else
        (case object_getattribute cls m attr_name of
           None \<Rightarrow> init_attributes cls used names m
         | Some item \<Rightarrow>
             (case object_delattr m attr_name of
                None \<Rightarrow> init_attributes cls used names m
              | Some m' \<Rightarrow>
                  init_attributes cls used names
                    (m'\<lparr>defaults := AList.update attr_name (default_of item m') (defaults m')\<rparr>))))"

definition init :: "pyclass \<Rightarrow> (string \<times> pyval) list \<Rightarrow> pyerr + model" where
  "init cls kwargs =
     (case drop_private (length kwargs) (map fst kwargs) kwargs of
        Inl e \<Rightarrow> Inl e
      | Inr kwargs' \<Rightarrow>
          (let m0 = \<lparr> defaults = [], items = kwargs', attributes = [], validators = None,
                      ignored_attrs = None, plain_attrs = [] \<rparr>;
               m1 = register_decorated (class_attrs cls) m0;
               attrs = (case annotations cls of None \<Rightarrow> [] | Some a \<Rightarrow> a)
           in init_attributes cls (length attrs) (map fst attrs) (m1\<lparr>attributes := attrs\<rparr>)))"

subsection \<open>Attribute access and \<^verbatim>\<open>ignore_attribute\<close>\<close>

text \<open>
  \<^verbatim>\<open>__setattr__\<close>: a name with a leading underscore or in \<^verbatim>\<open>_ignored_attrs\<close> goes to the instance's
  \<^verbatim>\<open>__dict__\<close>, any other name to the Item Store. Reading \<^verbatim>\<open>self.name\<close> is the ordinary lookup
  first and \<^verbatim>\<open>__getattr__\<close> (Item Store, then Default Store, then \<^verbatim>\<open>AttributeError\<close>) when that
  finds nothing.
\<close>

definition setattr :: "model \<Rightarrow> string \<Rightarrow> pyval \<Rightarrow> model" where
  "setattr m key v =
     (if startswith_underscore key \<or> key \<in> set (case ignored_attrs m of None \<Rightarrow> [] | Some l \<Rightarrow> l)
      then m\<lparr>plain_attrs := AList.update key v (plain_attrs m)\<rparr>
      else m\<lparr>items := AList.update key v (items m)\<rparr>)"

definition getattr :: "pyclass \<Rightarrow> model \<Rightarrow> string \<Rightarrow> pyerr + class_attr" where
  "getattr cls m name =
     (case object_getattribute cls m name of
        Some a \<Rightarrow> Inr a
      | None \<Rightarrow>
          (case map_of (items m) name of
             Some v \<Rightarrow> Inr (Literal v)
           | None \<Rightarrow>
               (case map_of (defaults m) name of
                  Some v \<Rightarrow> Inr (Literal v)
                | None \<Rightarrow> Inl AttributeError)))"

definition ignore_attribute :: "model \<Rightarrow> string \<Rightarrow> model" where
  "ignore_attribute m key =
     (let ignored = (case ignored_attrs m of None \<Rightarrow> [] | Some l \<Rightarrow> l);
          m1 = m\<lparr>ignored_attrs := Some ignored\<rparr>;
          m2 = (case map_of (defaults m1) key of
                  Some d \<Rightarrow> m1\<lparr>defaults := AList.delete key (defaults m1)\<rparr>
                | None \<Rightarrow> m1);
          m3 = (case map_of (items m2) key of
                  Some v \<Rightarrow> (let m' = setattr m2 key v in m'\<lparr>items := AList.delete key (items m')\<rparr>)
                | None \<Rightarrow> m2)
      in m3\<lparr>ignored_attrs := Some (ignored @ [key])\<rparr>)"

subsection \<open>\<^verbatim>\<open>validate\<close>\<close>

text \<open>Lines 355 to 357: an Item Store key that the schema does not have.\<close>

fun check_schema :: "string list \<Rightarrow> (string \<times> pytype) list \<Rightarrow> pyerr option" where
  "check_schema [] attrs = None"
| "check_schema (key # keys) attrs =
     (case map_of attrs key of
        None \<Rightarrow> Some (ValidationError key)
      | Some t \<Rightarrow> check_schema keys attrs)"

text \<open>Line 369.\<close>

definition is_optional :: "pytype \<Rightarrow> bool" where
  "is_optional v = (get_origin v = Some Typing_Union \<and> TNoneType \<in> set (get_args v))"

text \<open>
  Lines 362 to 373, what happens to one schema key before its type check: the key has a value
  (\<open>Check\<close>, with \<^verbatim>\<open>all_items\<close>, the type expression and the value to check), gets its default
  (\<open>Check\<close> again), is optional and gets \<^verbatim>\<open>None\<close> followed by \<^verbatim>\<open>continue\<close> (\<open>Continue\<close>), or is
  missing. The loop variable \<^verbatim>\<open>value\<close> holds the type expression of the key; line 365 rebinds it
  to the default, so for a defaulted key line 376 passes the default itself, a plain value, as
  the type expression.
\<close>

datatype reconciled =
    Check "(string \<times> pyval) list" pytype pyval
  | Continue "(string \<times> pyval) list"
  | Missing

definition reconcile :: "model \<Rightarrow> string \<Rightarrow> pytype \<Rightarrow> (string \<times> pyval) list \<Rightarrow> reconciled" where
  "reconcile m key v all_items =
     (case map_of all_items key of
        Some x \<Rightarrow> Check all_items v x
      | None \<Rightarrow>
          (case map_of (defaults m) key of
             Some d \<Rightarrow> Check (AList.update key d all_items) (TValue d) d
           | None \<Rightarrow>
               if is_optional v then Continue (AList.update key VNone all_items)
               else Missing))"

text \<open>
  Lines 360 to 378, the loop over the schema. The Type Expression Validator it calls is the
  parameter \<open>va\<close>; \<open>validate\<close> below passes \<open>validate_attr\<close>. The result is the outcome together
  with the instance, whose Item Store keeps the values written before a failure.
\<close>

fun type_check ::
  "(pytype \<Rightarrow> pyval \<Rightarrow> string \<Rightarrow> pyerr + pyval) \<Rightarrow> (string \<times> pytype) list \<Rightarrow>
   (string \<times> pyval) list \<Rightarrow> model \<Rightarrow> (pyerr + (string \<times> pyval) list) \<times> model" where
  "type_check va [] all_items m = (Inr all_items, m)"
| "type_check va ((key, v) # rest) all_items m =
     (case reconcile m key v all_items of
        Missing \<Rightarrow> (Inl (ValidationError key), m)
      | Continue all_items' \<Rightarrow> type_check va rest all_items' m
      | Check all_items' v' x \<Rightarrow>
          (case va v' x key of
             Inl e \<Rightarrow> (Inl e, m)
           | Inr item_value \<Rightarrow>
               type_check va rest (AList.update key item_value all_items')
                 (m\<lparr>items := AList.update key item_value (items m)\<rparr>)))"

text \<open>Lines 382 to 399, the validator chains.\<close>

fun run_handlers :: "(pyval \<Rightarrow> string \<Rightarrow> pyerr + pyval) list \<Rightarrow> pyval \<Rightarrow> string \<Rightarrow> pyerr + pyval" where
  "run_handlers [] v key = Inr v"
| "run_handlers (h # hs) v key =
     (case h v key of
        Inl e \<Rightarrow> Inl e
      | Inr v' \<Rightarrow> run_handlers hs v' key)"

definition call_validators ::
  "(string option \<times> (pyval \<Rightarrow> string \<Rightarrow> pyerr + pyval) list) list \<Rightarrow> pyval \<Rightarrow> string \<Rightarrow> pyerr + pyval" where
  "call_validators custom_validators v key =
     (case map_of custom_validators (Some key) of
        None \<Rightarrow> Inr VNone
      | Some handlers \<Rightarrow> run_handlers handlers v key)"

fun run_validators ::
  "(string option \<times> (pyval \<Rightarrow> string \<Rightarrow> pyerr + pyval) list) list \<Rightarrow>
   (pyval \<Rightarrow> string \<Rightarrow> pyerr + pyval) list \<Rightarrow> (string \<times> pyval) list \<Rightarrow>
   (string \<times> pyval) list \<Rightarrow> model \<Rightarrow> (pyerr + (string \<times> pyval) list) \<times> model" where
  "run_validators custom_validators all_gobbler [] all_items m = (Inr all_items, m)"
| "run_validators custom_validators all_gobbler ((key, v) # rest) all_items m =
     (case run_handlers all_gobbler v key of
        Inl e \<Rightarrow> (Inl e, m)
      | Inr v1 \<Rightarrow>
          (case call_validators custom_validators v1 key of
             Inl e \<Rightarrow> (Inl e, m)
           | Inr v2 \<Rightarrow>
               run_validators custom_validators all_gobbler rest
                 (AList.update key v2 all_items) (m\<lparr>items := AList.update key v2 (items m)\<rparr>)))"

definition custom_phase :: "(string \<times> pyval) list \<Rightarrow> model \<Rightarrow> (pyerr + (string \<times> pyval) list) \<times> model" where
  "custom_phase all_items m =
     (case validators m of
        None \<Rightarrow> (Inr all_items, m)
      | Some custom_validators \<Rightarrow>
          if custom_validators = [] then (Inr all_items, m)
          else run_validators custom_validators
                 (case map_of custom_validators None of None \<Rightarrow> [] | Some hs \<Rightarrow> hs)
                 all_items all_items m)"

definition validate_with ::
  "(pytype \<Rightarrow> pyval \<Rightarrow> string \<Rightarrow> pyerr + pyval) \<Rightarrow> model \<Rightarrow> (pyerr + (string \<times> pyval) list) \<times> model" where
  "validate_with va m =
     (case check_schema (map fst (items m)) (attributes m) of
        Some e \<Rightarrow> (Inl e, m)
      | None \<Rightarrow>
          (case type_check va (attributes m) (items m) m of
             (Inl e, m') \<Rightarrow> (Inl e, m')
           | (Inr all_items, m') \<Rightarrow> custom_phase all_items m'))"

definition validate :: "pylib \<Rightarrow> model \<Rightarrow> (pyerr + (string \<times> pyval) list) \<times> model" where
  "validate lib m = validate_with (validate_attr lib) m"

section \<open>Concrete classes, hooks and instances used in the evaluations\<close>

text \<open>A model class that declares no field, as \<^verbatim>\<open>Record\<close> does by itself.\<close>

definition plain_class :: pyclass where
  "plain_class = \<lparr> annotations = None, class_attrs = [] \<rparr>"

text \<open>\<^verbatim>\<open>class M(Model): a: int\<close> and the instance \<^verbatim>\<open>M(a=1)\<close>.\<close>

definition int_field_class :: pyclass where
  "int_field_class = \<lparr> annotations = Some [(''a'', TInt)], class_attrs = [] \<rparr>"

definition int_field_instance :: model where
  "int_field_instance =
     \<lparr> defaults = [], items = [(''a'', VInt 1)], attributes = [(''a'', TInt)],
       validators = None, ignored_attrs = None, plain_attrs = [] \<rparr>"

text \<open>The instance \<^verbatim>\<open>M(table_name="foo")\<close> of a class without fields.\<close>

definition table_instance :: model where
  "table_instance =
     \<lparr> defaults = [], items = [(''table_name'', VStr ''foo'')], attributes = [],
       validators = None, ignored_attrs = None, plain_attrs = [] \<rparr>"

text \<open>\<^verbatim>\<open>class M(Model): a: int = 5\<close> and the instance \<^verbatim>\<open>M()\<close>.\<close>

definition defaulted_class :: pyclass where
  "defaulted_class =
     \<lparr> annotations = Some [(''a'', TInt)], class_attrs = [(''a'', Literal (VInt 5))] \<rparr>"

definition defaulted_instance :: model where
  "defaulted_instance =
     \<lparr> defaults = [], items = [], attributes = [(''a'', TInt)],
       validators = None, ignored_attrs = None, plain_attrs = [] \<rparr>"

text \<open>A custom type whose \<^verbatim>\<open>__validate__(value)\<close> raises \<^verbatim>\<open>ValueError\<close>.\<close>

definition strict_hook :: "pyval \<Rightarrow> pyerr + pyval" where
  "strict_hook v = Inl ValueError"

definition strict_type :: pytype where
  "strict_type = TClass ''Strict'' (Some (Handler1 strict_hook))"

text \<open>A validator that appends \<^verbatim>\<open>"-field"\<close> to a string, and one that replaces \<^verbatim>\<open>None\<close>.\<close>

definition add_suffix :: "pyval \<Rightarrow> pyerr + pyval" where
  "add_suffix v = (case v of VStr s \<Rightarrow> Inr (VStr (s @ ''-field'')) | _ \<Rightarrow> Inr v)"

definition or_anonymous :: "pyval \<Rightarrow> pyerr + pyval" where
  "or_anonymous v = (case v of VNone \<Rightarrow> Inr (VStr ''anon'') | _ \<Rightarrow> Inr v)"



text \<open>
  \<^verbatim>\<open>class M(Model): nick: Optional[str]\<close> with a method decorated \<^verbatim>\<open>@validates("nick")\<close>, and
  the instance \<^verbatim>\<open>M()\<close>.
\<close>

definition nick_class :: pyclass where
  "nick_class =
     \<lparr> annotations = Some [(''nick'', TUnion [TStr, TNoneType])],
       class_attrs = [(''check_nick'', Validates (OneKey ''nick'') (Handler1 or_anonymous))] \<rparr>"

definition nick_instance :: model where
  "nick_instance =
     \<lparr> defaults = [], items = [], attributes = [(''nick'', TUnion [TStr, TNoneType])],
       validators = Some [(Some ''nick'', [two_params (Handler1 or_anonymous)])],
       ignored_attrs = None, plain_attrs = [] \<rparr>"

text \<open>
  \<^verbatim>\<open>M(name="x")\<close> for \<^verbatim>\<open>class M(Model): name: str\<close>, followed by
  \<^verbatim>\<open>add_validator(None, handler)\<close>: a wildcard registration only.
\<close>

definition wildcard_instance :: model where
  "wildcard_instance =
     add_validator
       \<lparr> defaults = [], items = [(''name'', VStr ''x'')], attributes = [(''name'', TStr)],
         validators = None, ignored_attrs = None, plain_attrs = [] \<rparr>
       AllKeys (Handler1 add_suffix)"

text \<open>
  \<^verbatim>\<open>M(n="42")\<close> for \<^verbatim>\<open>class M(Model): n: int; s: Optional[str]\<close>: the optional field \<^verbatim>\<open>s\<close> has no
  value and no default, and no validator is registered.
\<close>

definition optional_instance :: model where
  "optional_instance =
     \<lparr> defaults = [], items = [(''n'', VStr ''42'')],
       attributes = [(''n'', TInt), (''s'', TUnion [TStr, TNoneType])],
       validators = None, ignored_attrs = None, plain_attrs = [] \<rparr>"



text \<open>
  \<^verbatim>\<open>M(name="x", age=30)\<close> for \<^verbatim>\<open>class M(Model): name: str; age: int\<close>, with a validator on
  \<^verbatim>\<open>name\<close> that returns its argument, and none for \<^verbatim>\<open>age\<close>.
\<close>

definition identity_instance :: model where
  "identity_instance =
     \<lparr> defaults = [], items = [(''name'', VStr ''x''), (''age'', VInt 30)],
       attributes = [(''name'', TStr), (''age'', TInt)],
       validators = Some [(Some ''name'', [two_params (Handler1 Inr)])],
       ignored_attrs = None, plain_attrs = [] \<rparr>"

section \<open>Notions used in the statements\<close>

text \<open>The key-specific validator chain of a key, if one is registered.\<close>

definition key_chain :: "model \<Rightarrow> string \<Rightarrow> (pyval \<Rightarrow> string \<Rightarrow> pyerr + pyval) list option" where
  "key_chain m k = (case validators m of None \<Rightarrow> None | Some cv \<Rightarrow> map_of cv (Some k))"

text \<open>
  A Type Expression Validator that raises as soon as it is called for the key \<open>k\<close>, and is
  \<open>validate_attr\<close> for every other key.
\<close>

definition refusing_at :: "pylib \<Rightarrow> string \<Rightarrow> pytype \<Rightarrow> pyval \<Rightarrow> string \<Rightarrow> pyerr + pyval" where
  "refusing_at lib k ty x key = (if key = k then Inl TypeError else validate_attr lib ty x key)"




text \<open>The five types of the Coercer Registry, and those together with \<^verbatim>\<open>Optional\<close> of one of them.\<close>

fun primitive :: "pytype \<Rightarrow> bool" where
  "primitive TBool = True"
| "primitive TStr = True"
| "primitive TInt = True"
| "primitive TFloat = True"
| "primitive TDatetime = True"
| "primitive _ = False"



section \<open>Properties of the coercers\<close>

lemma get_origin_runtime:
  "get_origin t = None \<or> get_origin t = Some Typing_Union \<or>
   (\<exists>c. get_origin t = Some (Runtime_class c))"
  by (cases t) simp_all

lemma py_int_7: "py_int ''7'' = Some 7"
  by (simp add: py_int_def strip_def is_space_def parse_unsigned_def digit_val_def)

lemma py_int_tomorrow: "py_int ''tomorrow'' = None"
  by (simp add: py_int_def strip_def is_space_def parse_unsigned_def digit_val_def)

lemma py_int_abc: "py_int ''abc'' = None"
  by (simp add: py_int_def strip_def is_space_def parse_unsigned_def digit_val_def)

text \<open>
  C1. The claim: for a string input the bool coercer compares the input value, lower-cased,
  with the vocabulary, so that the value \<^verbatim>\<open>"Yes"\<close> gives true whatever the key and \<^verbatim>\<open>"maybe"\<close>
  raises \<^verbatim>\<open>ValidationError\<close>. The code lower-cases the key instead (line 33): with key
  \<^verbatim>\<open>"active"\<close> the value \<^verbatim>\<open>"Yes"\<close> is rejected, and with key \<^verbatim>\<open>"y"\<close> the value \<^verbatim>\<open>"maybe"\<close> is
  coerced to true.
\<close>

theorem validate_bool_compares_key:
  "validate_bool ''active'' (VStr ''Yes'') = Inl (ValidationError ''active'')
   \<and> validate_bool ''y'' (VStr ''maybe'') = Inr (VBool True)"
  by (simp add: validate_bool_def lower_def lower_char_def)

text \<open>
  The datetime coercer on a string that is neither an integer nor an ISO date: the
  \<^verbatim>\<open>ValueError\<close> of \<^verbatim>\<open>fromisoformat\<close> leaves the coercer as it is.
\<close>

lemma validate_datetime_unparseable:
  "py_int s = None \<Longrightarrow> fromisoformat lib s = None \<Longrightarrow>
   validate_datetime lib key (VStr s) = Inl ValueError"
  by (simp add: validate_datetime_def epoch_of_str_def)

text \<open>
  C7. The claim: every rejection by a primitive coercer is a \<^verbatim>\<open>ValidationError\<close> carrying the
  key, for the datetime coercer on every unparseable string in particular. The code lets the
  \<^verbatim>\<open>ValueError\<close> of \<^verbatim>\<open>datetime.fromisoformat\<close> escape (line 99): on the string \<^verbatim>\<open>"tomorrow"\<close>
  the datetime coercer raises \<^verbatim>\<open>ValueError\<close>, while the int coercer on the same string raises
  \<^verbatim>\<open>ValidationError\<close>.
\<close>

theorem validate_datetime_raises_ValueError:
  "validate_datetime rejecting_lib ''created'' (VStr ''tomorrow'') = Inl ValueError
   \<and> validate_int ''created'' (VStr ''tomorrow'') = Inl (ValidationError ''created'')"
  by (simp add: validate_datetime_def epoch_of_str_def py_int_tomorrow rejecting_lib_def
      validate_int_def)

section \<open>Properties of the Type Expression Validator\<close>

text \<open>A plain value in the place of a type has no origin, no registry entry and no hook.\<close>

lemma validate_attr_TValue: "validate_attr lib (TValue d) item key = Inl TypeError"
  by (simp add: validate_attr.simps find_validator_def)

text \<open>
  C4. The claim: a null value validated against a Union that includes the null marker returns
  null at once, so an explicit \<^verbatim>\<open>None\<close> for an \<^verbatim>\<open>Optional(T)\<close> field succeeds. The code tests
  \<^verbatim>\<open>None in types\<close> (line 80), and the arguments of a Union hold \<^verbatim>\<open>type(None)\<close>, never \<^verbatim>\<open>None\<close>:
  the fast path is not taken, both branches of \<^verbatim>\<open>Optional[int]\<close> fail and the \<^verbatim>\<open>TypeError\<close> of
  the last one is raised.
\<close>

theorem optional_rejects_None:
  "validate_attr rejecting_lib (TUnion [TInt, TNoneType]) VNone ''age'' = Inl TypeError"
  by (simp add: validate_attr.simps find_validator_def validate_int_def)

text \<open>An explicit \<^verbatim>\<open>None\<close> is rejected by \<^verbatim>\<open>Optional\<close> of each of the five primitive types.\<close>

lemma primitive_rejects_None:
  "primitive p \<Longrightarrow> validate_attr lib p VNone key = Inl (ValidationError key)"
  by (cases p)
     (simp_all add: validate_attr.simps find_validator_def validate_bool_def validate_str_def
        validate_int_def validate_float_def validate_datetime_def)

lemma optional_primitive_rejects_None:
  assumes "primitive p"
  shows "validate_attr lib (TUnion [p, TNoneType]) VNone key = Inl TypeError"
proof -
  from assms have "p \<noteq> TNone" by auto
  then show ?thesis
    using primitive_rejects_None[OF assms, of lib key]
    by (simp add: validate_attr.simps[of lib "TUnion [p, TNoneType]"]
        validate_attr.simps[of lib TNoneType] find_validator_def)
qed

lemma union_loop_first_success:
  assumes "\<forall>t\<in>set pre. \<exists>e. validate_attr lib t item key = Inl e \<and> caught_in_union e"
    and "validate_attr lib t item key = Inr v"
  shows "union_loop lib (pre @ t # post) item key last_throw = Inr v"
  using assms
proof (induction pre arbitrary: last_throw)
  case Nil
  then have "t \<noteq> TNone" using validate_attr_TValue by auto
  with Nil show ?case by simp
next
  case (Cons p pre)
  then show ?case by auto
qed

text \<open>
  C5, as stated: the first branch that validates without error wins. It fails for
  \<^verbatim>\<open>Union[Strict, str]\<close> on \<^verbatim>\<open>"x"\<close>: the first branch raises \<^verbatim>\<open>ValueError\<close>, the second would
  return \<^verbatim>\<open>"x"\<close>, and the union raises the \<^verbatim>\<open>ValueError\<close>, since the loop catches
  \<^verbatim>\<open>TypeError\<close> and \<^verbatim>\<open>ValidationError\<close> only. The \<^verbatim>\<open>ValueError\<close> that the datetime coercer
  lets through ends \<^verbatim>\<open>Union[datetime, str]\<close> on \<^verbatim>\<open>"tomorrow"\<close> in the same way.
\<close>

theorem union_uncaught_error_counterexample:
  "validate_attr rejecting_lib strict_type (VStr ''x'') ''k'' = Inl ValueError
   \<and> validate_attr rejecting_lib TStr (VStr ''x'') ''k'' = Inr (VStr ''x'')
   \<and> validate_attr rejecting_lib (TUnion [strict_type, TStr]) (VStr ''x'') ''k'' = Inl ValueError
   \<and> validate_attr rejecting_lib (TUnion [TDatetime, TStr]) (VStr ''tomorrow'') ''k''
       = Inl ValueError"
  by (simp add: validate_attr.simps find_validator_def strict_type_def strict_hook_def
      two_params_def validate_str_def validate_datetime_unparseable py_int_tomorrow
      rejecting_lib_def)

text \<open>
  C5, amended: for a non-null value the branches of a Union are tried in declared order; a
  branch that raises \<^verbatim>\<open>TypeError\<close> or \<^verbatim>\<open>ValidationError\<close> is passed over, and the result of the
  first branch that succeeds after only such failures is the result of the Union.
\<close>

theorem union_first_success:
  assumes "item \<noteq> VNone"
    and "\<forall>t\<in>set pre. \<exists>e. validate_attr lib t item key = Inl e \<and> caught_in_union e"
    and "validate_attr lib t item key = Inr v"
  shows "validate_attr lib (TUnion (pre @ t # post)) item key = Inr v"
proof -
  have "validate_attr lib (TUnion (pre @ t # post)) item key
        = union_loop lib (pre @ t # post) item key None"
    using assms(1) by (simp add: validate_attr.simps)
  then show ?thesis using union_loop_first_success[OF assms(2,3)] by simp
qed

text \<open>
  \<^verbatim>\<open>Union[int, str]\<close>: on \<^verbatim>\<open>"7"\<close> the int branch wins with the integer 7; on \<^verbatim>\<open>"abc"\<close> the int
  branch raises \<^verbatim>\<open>ValidationError\<close> and the str branch wins.
\<close>

theorem union_first_success_witness:
  "validate_attr rejecting_lib (TUnion [TInt, TStr]) (VStr ''7'') ''k'' = Inr (VInt 7)
   \<and> validate_attr rejecting_lib TInt (VStr ''abc'') ''k'' = Inl (ValidationError ''k'')
   \<and> validate_attr rejecting_lib (TUnion [TInt, TStr]) (VStr ''abc'') ''k'' = Inr (VStr ''abc'')"
proof -
  have int7: "validate_attr rejecting_lib TInt (VStr ''7'') ''k'' = Inr (VInt 7)"
    by (simp add: validate_attr.simps find_validator_def validate_int_def py_int_7)
  have int_abc: "validate_attr rejecting_lib TInt (VStr ''abc'') ''k'' = Inl (ValidationError ''k'')"
    by (simp add: validate_attr.simps find_validator_def validate_int_def py_int_abc)
  have str_abc: "validate_attr rejecting_lib TStr (VStr ''abc'') ''k'' = Inr (VStr ''abc'')"
    by (simp add: validate_attr.simps find_validator_def validate_str_def)
  have a: "validate_attr rejecting_lib (TUnion ([] @ TInt # [TStr])) (VStr ''7'') ''k'' = Inr (VInt 7)"
    by (rule union_first_success) (simp_all add: int7)
  have b: "validate_attr rejecting_lib (TUnion ([TInt] @ TStr # [])) (VStr ''abc'') ''k''
           = Inr (VStr ''abc'')"
    by (rule union_first_success) (simp_all add: int_abc str_abc)
  from a b int_abc show ?thesis by simp
qed

section \<open>Properties of construction and of \<^verbatim>\<open>ignore_attribute\<close>\<close>

text \<open>
  C8. The claim: construction succeeds for every initial mapping and drops the keys that start
  with an underscore. The code deletes such a key from \<^verbatim>\<open>kwargs\<close> while iterating over it
  (lines 170 to 172), and the next step of the dict iterator raises \<^verbatim>\<open>RuntimeError\<close>:
  \<^verbatim>\<open>Model(_secret=1)\<close> and \<^verbatim>\<open>M(a=1, _secret=1)\<close> both fail.
\<close>

theorem init_underscore_key_raises:
  "init plain_class [(''_secret'', VInt 1)] = Inl RuntimeError
   \<and> init int_field_class [(''a'', VInt 1), (''_secret'', VInt 1)] = Inl RuntimeError"
  by (simp add: init_def plain_class_def int_field_class_def)

text \<open>
  C3. The claim: construction records a class-level literal default in the Default Store and
  \<^verbatim>\<open>validate()\<close> uses it for a key the Item Store lacks. In the code \<^verbatim>\<open>object.__delattr__(self,
  attr_name)\<close> (line 191) raises \<^verbatim>\<open>AttributeError\<close>, the attribute being the class's and not the
  instance's, before \<^verbatim>\<open>found = True\<close>: for \<^verbatim>\<open>class M(Model): a: int = 5\<close> the Default Store of
  \<^verbatim>\<open>M()\<close> is empty and \<^verbatim>\<open>validate()\<close> raises \<^verbatim>\<open>ValidationError\<close> for \<^verbatim>\<open>a\<close>. Were the default
  in the Default Store, \<^verbatim>\<open>validate()\<close> would still not return it: line 365 rebinds the type
  expression to the default, and \<^verbatim>\<open>_validate_attr(5, 5, "a")\<close> raises \<^verbatim>\<open>TypeError\<close>.
\<close>

theorem init_loses_class_default:
  "init defaulted_class [] = Inr defaulted_instance
   \<and> defaults defaulted_instance = []
   \<and> fst (validate rejecting_lib defaulted_instance) = Inl (ValidationError ''a'')
   \<and> fst (validate rejecting_lib (defaulted_instance\<lparr>defaults := [(''a'', VInt 5)]\<rparr>))
       = Inl TypeError"
  by (simp add: init_def defaulted_class_def defaulted_instance_def object_getattribute_def
      object_delattr_def validate_def validate_with_def reconcile_def is_optional_def
      validate_attr_TValue)

text \<open>
  C2. The claim: after \<^verbatim>\<open>ignore_attribute(k)\<close>, \<^verbatim>\<open>validate()\<close> succeeds without a value for \<^verbatim>\<open>k\<close>,
  and a value supplied for \<^verbatim>\<open>k\<close> before stays readable as a plain attribute. The code leaves
  \<^verbatim>\<open>k\<close> in \<^verbatim>\<open>_attributes\<close> and appends it to \<^verbatim>\<open>_ignored_attrs\<close> only after the \<^verbatim>\<open>setattr\<close> of line
  344, which therefore writes the value back to the Item Store, where line 345 deletes it. For
  \<^verbatim>\<open>M(a=1)\<close> with \<^verbatim>\<open>a: int\<close>, \<^verbatim>\<open>validate()\<close> after \<^verbatim>\<open>ignore_attribute("a")\<close> raises
  \<^verbatim>\<open>ValidationError\<close> for \<^verbatim>\<open>a\<close>; for \<^verbatim>\<open>M(table_name="foo")\<close>, reading \<^verbatim>\<open>table_name\<close> after
  \<^verbatim>\<open>ignore_attribute("table_name")\<close> raises \<^verbatim>\<open>AttributeError\<close>.
\<close>

theorem ignore_attribute_still_required:
  "init int_field_class [(''a'', VInt 1)] = Inr int_field_instance
   \<and> fst (validate rejecting_lib (ignore_attribute int_field_instance ''a''))
       = Inl (ValidationError ''a'')
   \<and> init plain_class [(''table_name'', VStr ''foo'')] = Inr table_instance
   \<and> getattr plain_class (ignore_attribute table_instance ''table_name'') ''table_name''
       = Inl AttributeError"
  by (simp add: init_def int_field_class_def int_field_instance_def plain_class_def
      table_instance_def object_getattribute_def object_delattr_def ignore_attribute_def
      setattr_def getattr_def validate_def validate_with_def reconcile_def is_optional_def)

section \<open>Properties of \<^verbatim>\<open>validate\<close>\<close>

subsection \<open>One step of the schema loop\<close>

lemma reconcile_Check:
  "reconcile m key t ai = Check ai' ty x \<Longrightarrow>
     (ai' = ai \<and> ty = t \<and> map_of ai key = Some x) \<or>
     (map_of ai key = None \<and> map_of (defaults m) key = Some x \<and> ty = TValue x
      \<and> ai' = AList.update key x ai)"
  by (auto simp: reconcile_def split: option.splits if_splits)

lemma reconcile_Continue:
  "reconcile m key t ai = Continue ai' \<Longrightarrow>
     map_of ai key = None \<and> map_of (defaults m) key = None \<and> is_optional t
     \<and> ai' = AList.update key VNone ai"
  by (auto simp: reconcile_def split: option.splits if_splits)

lemma reconcile_other:
  "reconcile m key t ai = Check ai' ty x \<Longrightarrow> k \<noteq> key \<Longrightarrow> map_of ai' k = map_of ai k"
  "reconcile m key t ai = Continue ai' \<Longrightarrow> k \<noteq> key \<Longrightarrow> map_of ai' k = map_of ai k"
  by (auto dest!: reconcile_Check reconcile_Continue simp: update_conv')

lemma reconcile_Check_at:
  "reconcile m key t ai = Check ai' ty x \<Longrightarrow> map_of ai' key = Some x"
  by (auto dest!: reconcile_Check simp: update_conv')

text \<open>
  The two ways in which a step of the loop goes on to the rest of the schema.
\<close>

lemma type_check_Cons_cases:
  assumes "type_check va ((key, t) # rest) ai m = (Inr r, m')"
  obtains
    (checked) ai' ty x iv where "reconcile m key t ai = Check ai' ty x" "va ty x key = Inr iv"
      "type_check va rest (AList.update key iv ai') (m\<lparr>items := AList.update key iv (items m)\<rparr>) = (Inr r, m')"
  | (skipped) ai' where "reconcile m key t ai = Continue ai'"
      "type_check va rest ai' m = (Inr r, m')"
proof (cases "reconcile m key t ai")
  case (Check ai' ty x)
  with assms show ?thesis by (cases "va ty x key") (auto intro: checked)
next
  case (Continue ai')
  with assms show ?thesis by (auto intro: skipped)
next
  case Missing
  with assms show ?thesis by simp
qed

lemma type_check_other:
  "type_check va rest ai m = (Inr r, m') \<Longrightarrow> k \<notin> fst ` set rest \<Longrightarrow>
     map_of r k = map_of ai k \<and> map_of (items m') k = map_of (items m) k"
proof (induction rest arbitrary: ai m)
  case Nil
  then show ?case by simp
next
  case (Cons p rest)
  obtain key t where p: "p = (key, t)" by (cases p)
  from Cons.prems(2) p have ne: "k \<noteq> key" and notin: "k \<notin> fst ` set rest" by auto
  from Cons.prems(1)[unfolded p] show ?case
  proof (cases rule: type_check_Cons_cases)
    case (checked ai' ty x iv)
    from Cons.IH[OF checked(3) notin] reconcile_other(1)[OF checked(1) ne] ne
    show ?thesis by (simp add: update_conv')
  next
    case (skipped ai')
    from Cons.IH[OF skipped(2) notin] reconcile_other(2)[OF skipped(1) ne]
    show ?thesis by simp
  qed
qed

lemma type_check_fields:
  "type_check va rest ai m = (res, m') \<Longrightarrow>
     defaults m' = defaults m \<and> attributes m' = attributes m \<and> validators m' = validators m
     \<and> ignored_attrs m' = ignored_attrs m \<and> plain_attrs m' = plain_attrs m"
proof (induction rest arbitrary: ai m)
  case Nil
  then show ?case by simp
next
  case (Cons p rest)
  obtain key t where p: "p = (key, t)" by (cases p)
  show ?case
  proof (cases "reconcile m key t ai")
    case (Check ai' ty x)
    show ?thesis
    proof (cases "va ty x key")
      case (Inl e)
      with Cons.prems p Check show ?thesis by simp
    next
      case (Inr iv)
      with Cons.prems p Check
      have "type_check va rest (AList.update key iv ai') (m\<lparr>items := AList.update key iv (items m)\<rparr>) = (res, m')"
        by simp
      from Cons.IH[OF this] show ?thesis by simp
    qed
  next
    case (Continue ai')
    with Cons.prems p have "type_check va rest ai' m = (res, m')" by simp
    from Cons.IH[OF this] show ?thesis .
  next
    case Missing
    with Cons.prems p show ?thesis by simp
  qed
qed

lemma type_check_present:
  "type_check va rest ai m = (Inr r, m') \<Longrightarrow> k \<in> fst ` set rest \<Longrightarrow> map_of r k \<noteq> None"
proof (induction rest arbitrary: ai m)
  case Nil
  then show ?case by simp
next
  case (Cons p rest)
  obtain key t where p: "p = (key, t)" by (cases p)
  show ?case
  proof (cases "k \<in> fst ` set rest")
    case True
    from Cons.prems(1)[unfolded p] show ?thesis
      by (cases rule: type_check_Cons_cases) (use Cons.IH True in blast)+
  next
    case False
    with Cons.prems(2) p have k: "key = k" by auto
    from Cons.prems(1)[unfolded p] show ?thesis
    proof (cases rule: type_check_Cons_cases)
      case (checked ai' ty x iv)
      from type_check_other[OF checked(3) False] k show ?thesis by (simp add: update_conv')
    next
      case (skipped ai')
      from type_check_other[OF skipped(2) False] reconcile_Continue[OF skipped(1)] k
      show ?thesis by (simp add: update_conv')
    qed
  qed
qed

lemma type_check_optional_absent:
  "type_check va rest ai m = (Inr r, m') \<Longrightarrow> distinct (map fst rest) \<Longrightarrow>
   (k, t) \<in> set rest \<Longrightarrow> is_optional t \<Longrightarrow> map_of ai k = None \<Longrightarrow>
   map_of (defaults m) k = None \<Longrightarrow>
     map_of r k = Some VNone \<and> map_of (items m') k = map_of (items m) k"
proof (induction rest arbitrary: ai m)
  case Nil
  then show ?case by simp
next
  case (Cons p rest)
  obtain key t0 where p: "p = (key, t0)" by (cases p)
  from Cons.prems(2) p have notin: "key \<notin> fst ` set rest" and d: "distinct (map fst rest)"
    by auto
  show ?case
  proof (cases "key = k")
    case True
    with notin Cons.prems(3) p have t0: "t0 = t" by force
    have rc: "reconcile m key t0 ai = Continue (AList.update k VNone ai)"
      using True t0 Cons.prems(4,5,6) by (simp add: reconcile_def)
    with Cons.prems(1) p have "type_check va rest (AList.update k VNone ai) m = (Inr r, m')"
      by simp
    from type_check_other[OF this] notin True show ?thesis by (simp add: update_conv')
  next
    case False
    with Cons.prems(3) p have mem: "(k, t) \<in> set rest" by auto
    have ne: "k \<noteq> key" using False by simp
    from Cons.prems(1)[unfolded p] show ?thesis
    proof (cases rule: type_check_Cons_cases)
      case (checked ai' ty x iv)
      have "map_of (AList.update key iv ai') k = None"
        using reconcile_other(1)[OF checked(1) ne] Cons.prems(5) ne by (simp add: update_conv')
      from Cons.IH[OF checked(3) d mem Cons.prems(4) this] Cons.prems(6) ne
      show ?thesis by (simp add: update_conv')
    next
      case (skipped ai')
      have "map_of ai' k = None"
        using reconcile_other(2)[OF skipped(1) ne] Cons.prems(5) by simp
      from Cons.IH[OF skipped(2) d mem Cons.prems(4) this Cons.prems(6)]
      show ?thesis .
    qed
  qed
qed

lemma type_check_independent:
  "distinct (map fst rest) \<Longrightarrow>
   (\<And>t. (k, t) \<in> set rest \<Longrightarrow> is_optional t \<and> map_of ai k = None \<and> map_of (defaults m) k = None) \<Longrightarrow>
   (\<And>ty x key. key \<noteq> k \<Longrightarrow> va' ty x key = va ty x key) \<Longrightarrow>
     type_check va' rest ai m = type_check va rest ai m"
proof (induction rest arbitrary: ai m)
  case Nil
  then show ?case by simp
next
  case (Cons p rest)
  obtain key t0 where p: "p = (key, t0)" by (cases p)
  from Cons.prems(1) p have notin: "key \<notin> fst ` set rest" and d: "distinct (map fst rest)"
    by auto
  show ?case
  proof (cases "key = k")
    case True
    have opt: "is_optional t0 \<and> map_of ai k = None \<and> map_of (defaults m) k = None"
      using Cons.prems(2)[of t0] p True by simp
    then have rc: "reconcile m key t0 ai = Continue (AList.update k VNone ai)"
      using True by (simp add: reconcile_def)
    have "type_check va' rest (AList.update k VNone ai) m
          = type_check va rest (AList.update k VNone ai) m"
    proof (rule Cons.IH[OF d _ Cons.prems(3)])
      fix t assume "(k, t) \<in> set rest"
      with notin True have False by force
      then show "is_optional t \<and> map_of (AList.update k VNone ai) k = None
                 \<and> map_of (defaults m) k = None" ..
    qed
    with rc p show ?thesis by simp
  next
    case False
    then have ne: "k \<noteq> key" by simp
    have va_eq: "va' ty x key = va ty x key" for ty x
      using Cons.prems(3)[of key] False by simp
    show ?thesis
    proof (cases "reconcile m key t0 ai")
      case (Check ai' ty x)
      show ?thesis
      proof (cases "va ty x key")
        case (Inl e)
        with Check p va_eq show ?thesis by simp
      next
        case (Inr iv)
        have "type_check va' rest (AList.update key iv ai') (m\<lparr>items := AList.update key iv (items m)\<rparr>)
              = type_check va rest (AList.update key iv ai') (m\<lparr>items := AList.update key iv (items m)\<rparr>)"
        proof (rule Cons.IH[OF d _ Cons.prems(3)])
          fix t assume "(k, t) \<in> set rest"
          then have "is_optional t \<and> map_of ai k = None \<and> map_of (defaults m) k = None"
            using Cons.prems(2)[of t] p by simp
          then show "is_optional t \<and> map_of (AList.update key iv ai') k = None
                     \<and> map_of (defaults (m\<lparr>items := AList.update key iv (items m)\<rparr>)) k = None"
            using reconcile_other(1)[OF Check ne] ne by (simp add: update_conv')
        qed
        with Check Inr p va_eq show ?thesis by simp
      qed
    next
      case (Continue ai')
      have "type_check va' rest ai' m = type_check va rest ai' m"
      proof (rule Cons.IH[OF d _ Cons.prems(3)])
        fix t assume "(k, t) \<in> set rest"
        then have "is_optional t \<and> map_of ai k = None \<and> map_of (defaults m) k = None"
          using Cons.prems(2)[of t] p by simp
        then show "is_optional t \<and> map_of ai' k = None \<and> map_of (defaults m) k = None"
          using reconcile_other(2)[OF Continue ne] by simp
      qed
      with Continue p show ?thesis by simp
    next
      case Missing
      with p show ?thesis by simp
    qed
  qed
qed

subsection \<open>The validator chains\<close>

lemma run_validators_Cons_cases:
  assumes "run_validators cv ag ((key, v) # entries) ai m = (Inr r, m')"
  obtains v1 v2 where "run_handlers ag v key = Inr v1" "call_validators cv v1 key = Inr v2"
    "run_validators cv ag entries (AList.update key v2 ai) (m\<lparr>items := AList.update key v2 (items m)\<rparr>)
       = (Inr r, m')"
  using assms by (auto split: sum.splits)

lemma run_validators_other:
  "run_validators cv ag entries ai m = (Inr r, m') \<Longrightarrow> k \<notin> fst ` set entries \<Longrightarrow>
     map_of r k = map_of ai k \<and> map_of (items m') k = map_of (items m) k"
proof (induction entries arbitrary: ai m)
  case Nil
  then show ?case by simp
next
  case (Cons p entries)
  obtain key v where p: "p = (key, v)" by (cases p)
  from Cons.prems(2) p have ne: "k \<noteq> key" and notin: "k \<notin> fst ` set entries" by auto
  from Cons.prems(1)[unfolded p] show ?case
  proof (cases rule: run_validators_Cons_cases)
    case (1 v1 v2)
    from Cons.IH[OF 1(3) notin] ne show ?thesis by (simp add: update_conv')
  qed
qed

lemma run_validators_unchained:
  "run_validators cv ag entries ai m = (Inr r, m') \<Longrightarrow> k \<in> fst ` set entries \<Longrightarrow>
     map_of cv (Some k) = None \<Longrightarrow>
     map_of r k = Some VNone \<and> map_of (items m') k = Some VNone"
proof (induction entries arbitrary: ai m)
  case Nil
  then show ?case by simp
next
  case (Cons p entries)
  obtain key v where p: "p = (key, v)" by (cases p)
  from Cons.prems(1)[unfolded p] show ?case
  proof (cases rule: run_validators_Cons_cases)
    case (1 v1 v2)
    show ?thesis
    proof (cases "k \<in> fst ` set entries")
      case True
      from Cons.IH[OF 1(3) True Cons.prems(3)] show ?thesis .
    next
      case False
      with Cons.prems(2) p have "key = k" by auto
      with 1(2) Cons.prems(3) have "v2 = VNone" by (simp add: call_validators_def)
      with run_validators_other[OF 1(3) False] \<open>key = k\<close> show ?thesis
        by (simp add: update_conv')
    qed
  qed
qed

lemma validate_success:
  assumes "validate lib m = (Inr r, m')"
  obtains ai m1 where "check_schema (map fst (items m)) (attributes m) = None"
    "type_check (validate_attr lib) (attributes m) (items m) m = (Inr ai, m1)"
    "custom_phase ai m1 = (Inr r, m')"
  using assms
  by (auto simp: validate_def validate_with_def split: option.splits prod.splits sum.splits)

text \<open>
  A registration through \<^verbatim>\<open>add_validator\<close> for at least one key, the wildcard included,
  leaves a non-empty registry, which is what line 381 tests.
\<close>

lemma fold_append_handler_nonempty:
  "vs \<noteq> [] \<or> keys \<noteq> [] \<Longrightarrow> fold (append_handler h) keys vs \<noteq> []"
proof (induction keys arbitrary: vs)
  case Nil
  then show ?case by simp
next
  case (Cons k keys)
  have "append_handler h k vs \<noteq> []"
    by (simp add: append_handler_def split: option.splits)
  then show ?case using Cons.IH[of "append_handler h k vs"] by simp
qed

lemma add_validator_registers:
  assumes "key_name \<noteq> ManyKeys []"
  shows "\<exists>cv. validators (add_validator m key_name h) = Some cv \<and> cv \<noteq> []"
proof -
  have "(case key_name of AllKeys \<Rightarrow> [None] | OneKey k \<Rightarrow> [Some k] | ManyKeys ks \<Rightarrow> map Some ks) \<noteq> []"
    using assms by (cases key_name) simp_all
  then show ?thesis
    by (simp add: add_validator_def Let_def fold_append_handler_nonempty)
qed

text \<open>
  C10. For every model instance on which at least one validator has been registered, the
  wildcard included (the registry \<^verbatim>\<open>_validators\<close> exists and is not empty), a successful
  \<^verbatim>\<open>validate()\<close> gives \<^verbatim>\<open>None\<close> to every attribute of the schema that has no key-specific chain,
  in the returned mapping and in the Item Store: \<^verbatim>\<open>call_validators\<close> returns nothing for such
  a key (line 386) and its result replaces the value.
\<close>

theorem unchained_attribute_becomes_None:
  assumes "validators m = Some cv" and "cv \<noteq> []"
    and "validate lib m = (Inr r, m')"
    and "k \<in> fst ` set (attributes m)"
    and "map_of cv (Some k) = None"
  shows "map_of r k = Some VNone \<and> map_of (items m') k = Some VNone"
proof -
  from assms(3) obtain ai m1 where
    tc: "type_check (validate_attr lib) (attributes m) (items m) m = (Inr ai, m1)"
    and cp: "custom_phase ai m1 = (Inr r, m')"
    by (rule validate_success)
  from type_check_fields[OF tc] assms(1) have "validators m1 = Some cv" by simp
  with cp assms(2) have rv:
    "run_validators cv (case map_of cv None of None \<Rightarrow> [] | Some hs \<Rightarrow> hs) ai ai m1 = (Inr r, m')"
    by (simp add: custom_phase_def)
  from type_check_present[OF tc assms(4)] have "k \<in> fst ` set ai"
    by (metis map_of_eq_None_iff)
  from run_validators_unchained[OF rv this assms(5)] show ?thesis .
qed

lemma wildcard_validators:
  "validators wildcard_instance = Some [(None, [two_params (Handler1 add_suffix)])]"
  by (simp add: wildcard_instance_def add_validator_def append_handler_def)

lemma wildcard_attributes: "attributes wildcard_instance = [(''name'', TStr)]"
  and wildcard_items: "items wildcard_instance = [(''name'', VStr ''x'')]"
  by (simp_all add: wildcard_instance_def add_validator_def)

lemma wildcard_result:
  "fst (validate rejecting_lib wildcard_instance) = Inr [(''name'', VNone)]"
  by (simp add: validate_def validate_with_def wildcard_validators wildcard_attributes
      wildcard_items reconcile_def validate_attr.simps find_validator_def validate_str_def
      custom_phase_def call_validators_def two_params_def add_suffix_def)

text \<open>
  An instance with a string field \<^verbatim>\<open>name = "x"\<close> and a wildcard validator only: the returned
  mapping and the Item Store hold \<^verbatim>\<open>None\<close> for \<^verbatim>\<open>name\<close>.
\<close>

theorem unchained_attribute_becomes_None_witness:
  "validators wildcard_instance = Some [(None, [two_params (Handler1 add_suffix)])]
   \<and> fst (validate rejecting_lib wildcard_instance) = Inr [(''name'', VNone)]
   \<and> map_of (items (snd (validate rejecting_lib wildcard_instance))) ''name'' = Some VNone"
proof -
  have full: "validate rejecting_lib wildcard_instance
              = (Inr [(''name'', VNone)], snd (validate rejecting_lib wildcard_instance))"
    using wildcard_result by (metis prod.collapse)
  have "map_of [(''name'', VNone)] ''name'' = Some VNone
        \<and> map_of (items (snd (validate rejecting_lib wildcard_instance))) ''name'' = Some VNone"
    by (rule unchained_attribute_becomes_None[OF wildcard_validators _ full])
       (simp_all add: wildcard_attributes)
  with wildcard_validators wildcard_result show ?thesis by simp
qed

subsection \<open>Optional fields without a value\<close>

text \<open>
  C6, as stated: an optional field that is absent from the Item Store and has no default is
  null in the returned mapping. It fails when a key-specific validator is registered for the
  field: the chain runs over every key of the reconciled mapping, the one that was given
  \<^verbatim>\<open>None\<close> included, and its result replaces the value. For \<^verbatim>\<open>nick: Optional[str]\<close> with a
  validator that replaces \<^verbatim>\<open>None\<close> by \<^verbatim>\<open>"anon"\<close>, \<^verbatim>\<open>validate()\<close> returns \<^verbatim>\<open>"anon"\<close>.
\<close>

theorem optional_absent_counterexample:
  "init nick_class [] = Inr nick_instance
   \<and> is_optional (TUnion [TStr, TNoneType])
   \<and> items nick_instance = [] \<and> defaults nick_instance = []
   \<and> fst (validate rejecting_lib nick_instance) = Inr [(''nick'', VStr ''anon'')]"
  by (simp add: init_def nick_class_def nick_instance_def add_validator_def append_handler_def
      object_getattribute_def object_delattr_def is_optional_def
      validate_def validate_with_def reconcile_def custom_phase_def call_validators_def
      two_params_def or_anonymous_def)

text \<open>
  C6, amended: for every declared optional field that is absent from the Item Store and has
  no default, \<^verbatim>\<open>validate()\<close> never invokes the Type Expression Validator for that field (the
  outcome of \<^verbatim>\<open>validate()\<close> is the same with any validator that agrees with \<open>validate_attr\<close> on
  the other keys), and when the field has no key-specific validator chain a successful
  \<^verbatim>\<open>validate()\<close> returns null as its value. The schema is a dict, so its keys are distinct.
\<close>

theorem optional_absent_not_type_checked:
  assumes "distinct (map fst (attributes m))"
    and "map_of (attributes m) k = Some t" and "is_optional t"
    and "map_of (items m) k = None" and "map_of (defaults m) k = None"
  shows "(\<forall>va'. (\<forall>ty x key. key \<noteq> k \<longrightarrow> va' ty x key = validate_attr lib ty x key)
              \<longrightarrow> validate_with va' m = validate lib m)
       \<and> (\<forall>r m'. validate lib m = (Inr r, m') \<and> key_chain m k = None
              \<longrightarrow> map_of r k = Some VNone)"
proof (intro conjI allI impI)
  fix va' :: "pytype \<Rightarrow> pyval \<Rightarrow> string \<Rightarrow> pyerr + pyval"
  assume agree: "\<forall>ty x key. key \<noteq> k \<longrightarrow> va' ty x key = validate_attr lib ty x key"
  have "type_check va' (attributes m) (items m) m
        = type_check (validate_attr lib) (attributes m) (items m) m"
  proof (rule type_check_independent[OF assms(1)])
    fix t' assume "(k, t') \<in> set (attributes m)"
    with assms(1,2) have "t' = t" by simp
    with assms(3,4,5) show "is_optional t' \<and> map_of (items m) k = None \<and> map_of (defaults m) k = None"
      by simp
  next
    fix ty x key assume "key \<noteq> k"
    with agree show "va' ty x key = validate_attr lib ty x key" by simp
  qed
  then show "validate_with va' m = validate lib m"
    by (simp add: validate_def validate_with_def split: option.splits)
next
  fix r m'
  assume a: "validate lib m = (Inr r, m') \<and> key_chain m k = None"
  then obtain ai m1 where
    tc: "type_check (validate_attr lib) (attributes m) (items m) m = (Inr ai, m1)"
    and cp: "custom_phase ai m1 = (Inr r, m')"
    by (auto elim: validate_success)
  from assms(2) have mem: "(k, t) \<in> set (attributes m)" by (rule map_of_SomeD)
  from type_check_optional_absent[OF tc assms(1) mem assms(3,4,5)]
  have ai: "map_of ai k = Some VNone" by simp
  from type_check_fields[OF tc] have v: "validators m1 = validators m" by simp
  show "map_of r k = Some VNone"
  proof (cases "validators m")
    case None
    with cp v ai show ?thesis by (simp add: custom_phase_def)
  next
    case (Some cv)
    show ?thesis
    proof (cases "cv = []")
      case True
      with cp v ai Some show ?thesis by (simp add: custom_phase_def)
    next
      case False
      with cp v Some have rv:
        "run_validators cv (case map_of cv None of None \<Rightarrow> [] | Some hs \<Rightarrow> hs) ai ai m1 = (Inr r, m')"
        by (simp add: custom_phase_def)
      from ai have "k \<in> fst ` set ai" by (metis map_of_eq_None_iff option.distinct(1))
      moreover from a Some have "map_of cv (Some k) = None" by (simp add: key_chain_def)
      ultimately show ?thesis using run_validators_unchained[OF rv] by simp
    qed
  qed
qed

lemma py_int_42: "py_int ''42'' = Some 42"
  by (simp add: py_int_def strip_def is_space_def parse_unsigned_def digit_val_def)

lemma optional_instance_result:
  "validate rejecting_lib optional_instance
     = (Inr [(''n'', VInt 42), (''s'', VNone)], optional_instance\<lparr>items := [(''n'', VInt 42)]\<rparr>)"
  by (simp add: validate_def validate_with_def optional_instance_def reconcile_def
      is_optional_def validate_attr.simps find_validator_def validate_int_def py_int_42
      custom_phase_def)

text \<open>
  For \<^verbatim>\<open>M(n="42")\<close> with \<^verbatim>\<open>n: int\<close> and \<^verbatim>\<open>s: Optional[str]\<close>: a validator that raises for
  the key \<^verbatim>\<open>s\<close> changes nothing, and the returned mapping has \<^verbatim>\<open>None\<close> for \<^verbatim>\<open>s\<close>.
\<close>

theorem optional_absent_not_type_checked_witness:
  "distinct (map fst (attributes optional_instance))
   \<and> map_of (attributes optional_instance) ''s'' = Some (TUnion [TStr, TNoneType])
   \<and> is_optional (TUnion [TStr, TNoneType])
   \<and> map_of (items optional_instance) ''s'' = None
   \<and> map_of (defaults optional_instance) ''s'' = None
   \<and> key_chain optional_instance ''s'' = None
   \<and> validate_with (refusing_at rejecting_lib ''s'') optional_instance
       = validate rejecting_lib optional_instance
   \<and> fst (validate rejecting_lib optional_instance) = Inr [(''n'', VInt 42), (''s'', VNone)]
   \<and> map_of [(''n'', VInt 42), (''s'', VNone)] ''s'' = Some VNone"
proof -
  have d: "distinct (map fst (attributes optional_instance))"
    and a: "map_of (attributes optional_instance) ''s'' = Some (TUnion [TStr, TNoneType])"
    and o: "is_optional (TUnion [TStr, TNoneType])"
    and i: "map_of (items optional_instance) ''s'' = None"
    and f: "map_of (defaults optional_instance) ''s'' = None"
    and c: "key_chain optional_instance ''s'' = None"
    by (simp_all add: optional_instance_def is_optional_def key_chain_def)
  note inst = optional_absent_not_type_checked[OF d a o i f, of rejecting_lib]
  have "validate_with (refusing_at rejecting_lib ''s'') optional_instance
        = validate rejecting_lib optional_instance"
    using inst by (simp add: refusing_at_def)
  moreover have "map_of [(''n'', VInt 42), (''s'', VNone)] ''s'' = Some VNone"
    using inst optional_instance_result c by blast
  ultimately show ?thesis using d a o i f c optional_instance_result by simp
qed

subsection \<open>Validating twice\<close>

































text \<open>
  A second call can also fail through the \<^verbatim>\<open>None\<close> that the first call gives to an attribute
  without a key-specific chain once any validator is registered (the bare \<^verbatim>\<open>return\<close> of line
  386, see C10): with a validator on \<^verbatim>\<open>name\<close> that returns its argument, the first call returns
  \<^verbatim>\<open>{name: "x", age: None}\<close> and the second raises \<^verbatim>\<open>ValidationError\<close> for \<^verbatim>\<open>age\<close>. The amended
  statement below says nothing about such an attribute: its hypothesis fails there.
\<close>

lemma revalidation_after_unchained_None:
  "fst (validate rejecting_lib identity_instance) = Inr [(''name'', VStr ''x''), (''age'', VNone)]
   \<and> fst (validate rejecting_lib (snd (validate rejecting_lib identity_instance)))
       = Inl (ValidationError ''age'')"
  by (simp add: identity_instance_def
      validate_def validate_with_def reconcile_def validate_attr.simps find_validator_def
      validate_str_def validate_int_def custom_phase_def call_validators_def two_params_def)









end
